theory Spec2Isabelle
  imports Main "HOL-Library.Word"
begin

section \<open>The background remover of \<open>remove_bg.py\<close>\<close>

text \<open>
  The script opens one image, converts it to RGBA, rewrites every near-white pixel to
  transparent white in a single loop, stores the new pixel list in the image, saves it
  as PNG and prints one line. Everything runs inside one \<open>try\<close> with a handler for
  \<open>Exception\<close>.
\<close>

subsection \<open>Pixels and images\<close>

text \<open>
  A channel is one unsigned byte; an RGBA pixel is the 4-tuple Pillow hands out from
  \<open>getdata()\<close>. The order on \<open>8 word\<close> is the unsigned one, as the comparison of
  the Python integers 0..255 is.
\<close>

type_synonym channel = "8 word"
type_synonym rgb = "channel \<times> channel \<times> channel"
type_synonym pixel = "channel \<times> channel \<times> channel \<times> channel"

record 'p image =
  width :: nat
  height :: nat
  getdata :: "'p list"

text \<open>
  What \<open>Image.open\<close> yields. Only the two modes the specification speaks about are
  modelled: three channels (no alpha) and four channels.
\<close>

datatype source_image = RGB "rgb image" | RGBA "pixel image"

fun source_width :: "source_image \<Rightarrow> nat" where
  "source_width (RGB im) = width im"
| "source_width (RGBA im) = width im"

fun source_height :: "source_image \<Rightarrow> nat" where
  "source_height (RGB im) = height im"
| "source_height (RGBA im) = height im"

text \<open>
  Modelled from the spec: Pillow's \<open>Image.convert("RGBA")\<close> is library code outside the
  repository. A three-channel pixel gets alpha 255; a four-channel image passes through
  with its own alpha values. The size is kept.
\<close>

fun convert_RGBA :: "source_image \<Rightarrow> pixel image" where
  "convert_RGBA (RGB im) =
     \<lparr>width = width im, height = height im,
      getdata = map (\<lambda>(r, g, b). (r, g, b, 255)) (getdata im)\<rparr>"
| "convert_RGBA (RGBA im) = im"

subsection \<open>The transform loop (lines 12 to 18)\<close>

text \<open>The test of line 15 on \<open>item[0]\<close>, \<open>item[1]\<close>, \<open>item[2]\<close>.\<close>

definition near_white :: "pixel \<Rightarrow> bool" where
  "near_white item =
     (case item of (i0, i1, i2, i3) \<Rightarrow> i0 > 240 \<and> i1 > 240 \<and> i2 > 240)"

text \<open>The value appended to \<open>newData\<close> for one \<open>item\<close> (lines 15 to 18).\<close>

definition appended :: "pixel \<Rightarrow> pixel" where
  "appended item = (if near_white item then (255, 255, 255, 0) else item)"

text \<open>
  The \<open>for item in datas\<close> loop, with \<open>newData\<close> as the accumulator that each
  iteration extends at its end.
\<close>

fun for_item :: "pixel list \<Rightarrow> pixel list \<Rightarrow> pixel list" where
  "for_item newData [] = newData"
| "for_item newData (item # datas) = for_item (newData @ [appended item]) datas"

text \<open>Lines 12 to 18: \<open>newData\<close> starts empty.\<close>

definition transform :: "pixel list \<Rightarrow> pixel list" where
  "transform datas = for_item [] datas"

subsection \<open>Exceptions, and storing the pixels back (line 20)\<close>

text \<open>
  A raised Python exception: whether its class derives from \<open>Exception\<close> (those of
  \<open>KeyboardInterrupt\<close> and \<open>SystemExit\<close> do not), and the text \<open>str(e)\<close> gives.
\<close>

datatype exn = Raised (is_Exception: bool) (str: string)

text \<open>
  Pillow's \<open>putdata\<close> is library code outside the repository: it copies the sequence
  over the image's pixels from the first one on, leaves the size alone, and rejects with a
  \<open>TypeError\<close> a sequence that has more entries than the image has pixels.
\<close>

definition putdata :: "pixel image \<Rightarrow> pixel list \<Rightarrow> exn + pixel image" where
  "putdata img newData =
     (if length (getdata img) < length newData
      then Inl (Raised True ''too many data entries'')
      else Inr (img\<lparr>getdata := newData @ drop (length newData) (getdata img)\<rparr>))"

text \<open>Lines 10 to 20 on the converted image: read the pixels, loop, store.\<close>

definition remove_bg :: "pixel image \<Rightarrow> exn + pixel image" where
  "remove_bg img =
     (let datas = getdata img;
          newData = transform datas
      in putdata img newData)"

subsection \<open>The whole script (lines 4 to 24)\<close>

text \<open>
  The world the script acts on: the files by path, the lines printed so far (one entry
  for each call of \<open>print\<close> that went through), and, for a text, the exception that
  writing it to standard output raises, if any (an unencodable character, a full device,
  a closed pipe).
\<close>

record 'f world =
  files :: "string \<Rightarrow> 'f option"
  stdout :: "string list"
  stdout_error :: "string \<Rightarrow> exn option"

text \<open>
  What is not in the repository is a parameter: how Pillow opens an existing file, whether
  loading its pixel data fails (Pillow decodes lazily, when \<open>convert\<close> first needs the
  pixels), what \<open>save\<close> does to the files and whether it fails, and the text of the
  operating system's error for a missing file.
\<close>

record 'f pillow =
  open_existing :: "string \<Rightarrow> 'f \<Rightarrow> exn + source_image"
  load :: "source_image \<Rightarrow> exn option"
  save :: "(string \<Rightarrow> 'f option) \<Rightarrow> string \<Rightarrow> pixel image \<Rightarrow> exn option \<times> (string \<Rightarrow> 'f option)"
  no_such_file :: "string \<Rightarrow> string"

definition backslash :: char where
  "backslash = CHR 0x5C"

definition source :: string where
  "source = ''d:'' @ [backslash] @ ''BuddyMate'' @ [backslash] @ ''assets''
            @ [backslash] @ ''logo.png''"

definition target :: string where
  "target = ''d:'' @ [backslash] @ ''BuddyMate'' @ [backslash] @ ''assets''
            @ [backslash] @ ''logo_transparent.png''"

text \<open>\<open>Image.open\<close>: a missing file raises \<open>FileNotFoundError\<close>, a subclass of \<open>Exception\<close>.\<close>

definition Image_open :: "'f pillow \<Rightarrow> (string \<Rightarrow> 'f option) \<Rightarrow> string \<Rightarrow> exn + source_image" where
  "Image_open lib fs path =
     (case fs path of
        None \<Rightarrow> Inl (Raised True (no_such_file lib path))
      | Some f \<Rightarrow> open_existing lib path f)"

text \<open>\<open>img.convert("RGBA")\<close>: load the pixel data, then convert.\<close>

definition convert :: "'f pillow \<Rightarrow> source_image \<Rightarrow> exn + pixel image" where
  "convert lib img =
     (case load lib img of
        Some e \<Rightarrow> Inl e
      | None \<Rightarrow> Inr (convert_RGBA img))"

text \<open>\<open>print\<close>: the write may raise; otherwise the line is on standard output.\<close>

definition print :: "string \<Rightarrow> 'f world \<Rightarrow> exn option \<times> 'f world" where
  "print line w =
     (case stdout_error w line of
        Some e \<Rightarrow> (Some e, w)
      | None \<Rightarrow> (None, w\<lparr>stdout := stdout w @ [line]\<rparr>))"

text \<open>
  The body of the \<open>try\<close> (lines 8 to 22): the exception that left it, if any, and the
  world at that moment.
\<close>

definition try_body :: "'f pillow \<Rightarrow> 'f world \<Rightarrow> exn option \<times> 'f world" where
  "try_body lib w =
     (case Image_open lib (files w) source of
        Inl e \<Rightarrow> (Some e, w)
      | Inr img \<Rightarrow>
          (case convert lib img of
             Inl e \<Rightarrow> (Some e, w)
           | Inr img \<Rightarrow>
               (case remove_bg img of
                  Inl e \<Rightarrow> (Some e, w)
                | Inr img \<Rightarrow>
                    (case save lib (files w) target img of
                       (Some e, fs) \<Rightarrow> (Some e, w\<lparr>files := fs\<rparr>)
                     | (None, fs) \<Rightarrow>
                         print (''Success: Created '' @ target) (w\<lparr>files := fs\<rparr>)))))"

text \<open>
  The script: \<open>except Exception as e\<close> handles an exception whose class derives from
  \<open>Exception\<close> by printing one line; any other leaves the script. The \<open>print\<close> of
  line 24 is inside the handler and under no \<open>try\<close> of its own, so an exception it
  raises leaves the script. The first component is the exception the script ends with,
  \<open>None\<close> when it ends normally.
\<close>

definition script :: "'f pillow \<Rightarrow> 'f world \<Rightarrow> exn option \<times> 'f world" where
  "script lib w =
     (case try_body lib w of
        (None, w') \<Rightarrow> (None, w')
      | (Some e, w') \<Rightarrow>
          (if is_Exception e then print (''Error: '' @ str e) w'
           else (Some e, w')))"

subsection \<open>Example environments\<close>





subsection \<open>Helper facts about the loop\<close>

lemma for_item_map: "for_item newData datas = newData @ map appended datas"
  by (induction datas arbitrary: newData) simp_all

lemma transform_map: "transform datas = map appended datas"
  by (simp add: transform_def for_item_map)

lemma length_transform: "length (transform datas) = length datas"
  by (simp add: transform_map)

lemma transform_nth: "i < length datas \<Longrightarrow> transform datas ! i = appended (datas ! i)"
  by (simp add: transform_map)

lemma near_white_transparent: "near_white (255, 255, 255, 0)"
  by (simp add: near_white_def)

lemma appended_idem: "appended (appended item) = appended item"
  by (simp add: appended_def near_white_transparent)

lemma remove_bg_stores:
  "remove_bg img = Inr (img\<lparr>getdata := transform (getdata img)\<rparr>)"
  by (simp add: remove_bg_def putdata_def length_transform)

lemma script_success:
  assumes "Image_open lib (files w) source = Inr src"
    and "convert lib src = Inr img"
    and "save lib (files w) target (img\<lparr>getdata := transform (getdata img)\<rparr>) = (None, fs)"
    and "stdout_error w (''Success: Created '' @ target) = None"
  shows "script lib w
           = (None, w\<lparr>files := fs, stdout := stdout w @ [''Success: Created '' @ target]\<rparr>)"
  using assms by (simp add: script_def try_body_def remove_bg_stores print_def)

subsection \<open>Claims\<close>

text \<open>
  C3. The threshold test is strict greater-than 240 on each of the three colour channels
  and on nothing else: a pixel is converted to (255, 255, 255, 0) exactly when its red, its
  green and its blue value are all above 240, and is kept as it is otherwise; the loop
  applies this to every pixel. So (240, 240, 240) is retained unchanged, (241, 241, 241)
  becomes (255, 255, 255, 0), and (241, 241, 239), (241, 240, 240) and (255, 255, 230)
  are not converted, each for any alpha.
\<close>

theorem threshold_strict_boundary:
  "near_white (r, g, b, a) = (240 < unat r \<and> 240 < unat g \<and> 240 < unat b)
   \<and> appended (r, g, b, a)
       = (if 240 < unat r \<and> 240 < unat g \<and> 240 < unat b
          then (255, 255, 255, 0) else (r, g, b, a))
   \<and> (appended (r, g, b, a) = (255, 255, 255, 0))
       = (240 < unat r \<and> 240 < unat g \<and> 240 < unat b)
   \<and> transform datas
       = map (\<lambda>(r, g, b, a).
                if 240 < unat r \<and> 240 < unat g \<and> 240 < unat b
                then (255, 255, 255, 0) else (r, g, b, a)) datas
   \<and> appended (240, 240, 240, a) = (240, 240, 240, a)
   \<and> appended (241, 241, 241, a) = (255, 255, 255, 0)
   \<and> appended (241, 241, 239, a) = (241, 241, 239, a)
   \<and> appended (241, 240, 240, a) = (241, 240, 240, a)
   \<and> appended (255, 255, 230, a) = (255, 255, 230, a)
   \<and> transform [(240, 240, 240, a), (241, 241, 241, a), (241, 241, 239, a)]
       = [(240, 240, 240, a), (255, 255, 255, 0), (241, 241, 239, a)]"
proof -
  have test: "near_white (r', g', b', a') = (240 < unat r' \<and> 240 < unat g' \<and> 240 < unat b')"
    for r' g' b' a'
    by (simp add: near_white_def word_less_nat_alt)
  have rule: "appended (r', g', b', a')
      = (if 240 < unat r' \<and> 240 < unat g' \<and> 240 < unat b'
         then (255, 255, 255, 0) else (r', g', b', a'))" for r' g' b' a'
    by (simp add: appended_def test)
  have "appended = (\<lambda>(r, g, b, a).
                if 240 < unat r \<and> 240 < unat g \<and> 240 < unat b
                then (255, 255, 255, 0) else (r, g, b, a))"
    by (rule ext) (simp add: rule split: prod.split)
  then have loop: "transform datas
       = map (\<lambda>(r, g, b, a).
                if 240 < unat r \<and> 240 < unat g \<and> 240 < unat b
                then (255, 255, 255, 0) else (r, g, b, a)) datas"
    by (simp add: transform_map)
  have iff: "(appended (r, g, b, a) = (255, 255, 255, 0))
       = (240 < unat r \<and> 240 < unat g \<and> 240 < unat b)"
    by (auto simp: rule)
  have concrete: "appended (240, 240, 240, a) = (240, 240, 240, a)
   \<and> appended (241, 241, 241, a) = (255, 255, 255, 0)
   \<and> appended (241, 241, 239, a) = (241, 241, 239, a)
   \<and> appended (241, 240, 240, a) = (241, 240, 240, a)
   \<and> appended (255, 255, 230, a) = (255, 255, 230, a)
   \<and> transform [(240, 240, 240, a), (241, 241, 241, a), (241, 241, 239, a)]
       = [(240, 240, 240, a), (255, 255, 255, 0), (241, 241, 239, a)]"
    by (simp add: transform_def appended_def near_white_def)
  from test rule iff loop concrete show ?thesis
    by blast
qed

text \<open>
  C4. The transform is idempotent: for every list of RGBA pixels, transforming the
  output again gives the same pixel list as transforming once.
\<close>

theorem transform_idempotent: "transform (transform datas) = transform datas"
  by (simp add: transform_map appended_idem)

text \<open>
  C1. For every pixel of the four-channel input whose red, green and blue channels are
  each strictly greater than 240, the corresponding output pixel is exactly
  (255, 255, 255, 0), whatever the alpha; both in the list the loop builds and in the
  image it is stored into.
\<close>

theorem near_white_replaced:
  assumes "i < length (getdata img)"
    and "getdata img ! i = (r, g, b, a)"
    and "r > 240" and "g > 240" and "b > 240"
  shows "transform (getdata img) ! i = (255, 255, 255, 0)
         \<and> (\<exists>out. remove_bg img = Inr out \<and> getdata out ! i = (255, 255, 255, 0))"
  using assms by (simp add: remove_bg_stores transform_nth appended_def near_white_def)

theorem near_white_replaced_witness:
  "transform [(1, 2, 3, 4), (250, 241, 255, 9)] ! 1 = (255, 255, 255, 0)
   \<and> (\<exists>out. remove_bg \<lparr>width = 2, height = 1,
                         getdata = [(1, 2, 3, 4), (250, 241, 255, 9)]\<rparr> = Inr out
          \<and> getdata out ! 1 = (255, 255, 255, 0))"
  using near_white_replaced
    [of 1 "\<lparr>width = 2, height = 1, getdata = [(1, 2, 3, 4), (250, 241, 255, 9)]\<rparr>"
        250 241 255 9]
  by simp

text \<open>
  C2. A pixel of the four-channel input with at least one of r, g, b at 240 or less is
  copied to the output exactly, alpha included. When the source had three channels the
  output pixel is (r, g, b, 255); when it had four, it is the source pixel with its own
  alpha.
\<close>

theorem other_pixels_copied:
  assumes "r \<le> 240 \<or> g \<le> 240 \<or> b \<le> 240"
  shows "(i < length datas \<and> datas ! i = (r, g, b, a)
            \<longrightarrow> transform datas ! i = (r, g, b, a))
       \<and> (i < length (getdata im3) \<and> getdata im3 ! i = (r, g, b)
            \<longrightarrow> transform (getdata (convert_RGBA (RGB im3))) ! i = (r, g, b, 255))
       \<and> (i < length (getdata im4) \<and> getdata im4 ! i = (r, g, b, a)
            \<longrightarrow> transform (getdata (convert_RGBA (RGBA im4))) ! i = (r, g, b, a))"
proof -
  from assms have keep: "\<not> near_white (r, g, b, a')" for a'
    by (auto simp: near_white_def)
  show ?thesis
    by (simp add: transform_nth appended_def keep)
qed

theorem other_pixels_copied_witness:
  "transform [(255, 255, 255, 255), (250, 240, 250, 77)] ! 1 = (250, 240, 250, 77)
   \<and> transform (getdata (convert_RGBA (RGB \<lparr>width = 1, height = 2,
        getdata = [(255, 255, 255), (250, 240, 250)]\<rparr>))) ! 1 = (250, 240, 250, 255)
   \<and> transform (getdata (convert_RGBA (RGBA \<lparr>width = 1, height = 2,
        getdata = [(255, 255, 255, 255), (250, 240, 250, 77)]\<rparr>))) ! 1
       = (250, 240, 250, 77)"
  using other_pixels_copied
    [of 250 240 250 1 "[(255, 255, 255, 255), (250, 240, 250, 77)]" 77
        "\<lparr>width = 1, height = 2, getdata = [(255, 255, 255), (250, 240, 250)]\<rparr>"
        "\<lparr>width = 1, height = 2,
          getdata = [(255, 255, 255, 255), (250, 240, 250, 77)]\<rparr>"]
  by simp

text \<open>
  C5. The decision depends on red, green and blue only: two pixels that differ only in
  alpha get the same result of the test and are converted or kept together, and a pixel
  with r, g and b above 240 becomes (255, 255, 255, 0) whatever its alpha is.
\<close>

theorem decision_ignores_alpha:
  "near_white (r, g, b, a) = near_white (r, g, b, a')
   \<and> ((appended (r, g, b, a) = (255, 255, 255, 0))
        = (appended (r, g, b, a') = (255, 255, 255, 0)))
   \<and> (r > 240 \<and> g > 240 \<and> b > 240 \<longrightarrow> appended (r, g, b, a) = (255, 255, 255, 0))"
  by (auto simp: appended_def near_white_def)

theorem decision_ignores_alpha_witness:
  "near_white (250, 251, 252, 0) = near_white (250, 251, 252, 200)
   \<and> appended (250, 251, 252, 0) = (255, 255, 255, 0)
   \<and> appended (250, 251, 252, 200) = (255, 255, 255, 0)"
  using decision_ignores_alpha [of 250 251 252 0 200]
    decision_ignores_alpha [of 250 251 252 200 0]
  by simp

text \<open>
  C6. The 2 by 1 three-channel input [(255,255,255), (10,20,30)], converted to four
  channels with alpha 255 and run through the loop, gives exactly
  [(255,255,255,0), (10,20,30,255)]; that list is what the image then holds.
\<close>

theorem scenario_two_pixels:
  "transform (getdata (convert_RGBA
      (RGB \<lparr>width = 2, height = 1, getdata = [(255, 255, 255), (10, 20, 30)]\<rparr>)))
     = [(255, 255, 255, 0), (10, 20, 30, 255)]
   \<and> remove_bg (convert_RGBA
        (RGB \<lparr>width = 2, height = 1, getdata = [(255, 255, 255), (10, 20, 30)]\<rparr>))
     = Inr \<lparr>width = 2, height = 1,
            getdata = [(255, 255, 255, 0), (10, 20, 30, 255)]\<rparr>"
  by (simp add: remove_bg_stores transform_def appended_def near_white_def)

text \<open>
  C7. The output image has the width and height of the input image: storing the new
  pixels always succeeds and changes nothing but the pixel list, the conversion keeps the
  size, and the loop gives one output pixel for each input pixel.
\<close>

theorem dimensions_kept:
  "remove_bg img = Inr (img\<lparr>getdata := transform (getdata img)\<rparr>)
   \<and> length (transform datas) = length datas
   \<and> (\<exists>out. remove_bg (convert_RGBA src) = Inr out
          \<and> width out = source_width src \<and> height out = source_height src
          \<and> length (getdata out) = length (getdata (convert_RGBA src)))"
  by (cases src) (simp_all add: remove_bg_stores length_transform)

text \<open>
  C9. Each pixel is processed independently: the output pixel at index i is the per-pixel
  rule applied to the input pixel at index i, so replacing any other pixel of the input,
  or taking any other input with the same pixel at i, leaves the output at i unchanged.
\<close>

theorem pixels_independent:
  assumes "i < length xs"
  shows "transform xs ! i = appended (xs ! i)
       \<and> (j \<noteq> i \<longrightarrow> transform (xs[j := p]) ! i = transform xs ! i)
       \<and> (i < length ys \<and> ys ! i = xs ! i \<longrightarrow> transform ys ! i = transform xs ! i)"
  using assms by (simp add: transform_nth)

theorem pixels_independent_witness:
  "transform [(1, 2, 3, 4), (250, 250, 250, 9)] ! 0 = appended (1, 2, 3, 4)
   \<and> transform ([(1, 2, 3, 4), (250, 250, 250, 9)][1 := (0, 0, 0, 0)]) ! 0
       = transform [(1, 2, 3, 4), (250, 250, 250, 9)] ! 0
   \<and> transform [(1, 2, 3, 4)] ! 0 = transform [(1, 2, 3, 4), (250, 250, 250, 9)] ! 0"
  using pixels_independent
    [of 0 "[(1, 2, 3, 4), (250, 250, 250, 9)]" 1 "(0, 0, 0, 0)" "[(1, 2, 3, 4)]"]
  by simp

text \<open>
  C10. Every output pixel is either exactly (255, 255, 255, 0) or equal to the input
  pixel at the same index. So an output alpha is 0 or the alpha of an input pixel, and an
  output colour triple is (255, 255, 255) or the triple of an input pixel.
\<close>

theorem output_dichotomy:
  assumes "i < length datas"
  shows "(transform datas ! i = (255, 255, 255, 0) \<or> transform datas ! i = datas ! i)
       \<and> (transform datas ! i = (r, g, b, a)
            \<longrightarrow> (a = 0 \<or> (\<exists>r' g' b'. (r', g', b', a) \<in> set datas))
              \<and> ((r, g, b) = (255, 255, 255) \<or> (\<exists>a'. (r, g, b, a') \<in> set datas)))"
proof -
  have mem: "datas ! i \<in> set datas"
    using assms by simp
  have "transform datas ! i = appended (datas ! i)"
    using assms by (rule transform_nth)
  then have two: "transform datas ! i = (255, 255, 255, 0) \<or> transform datas ! i = datas ! i"
    by (simp add: appended_def)
  from two mem show ?thesis
    by auto
qed

theorem output_dichotomy_witness:
  "(transform [(250, 250, 250, 9), (1, 2, 3, 4)] ! 1 = (255, 255, 255, 0)
      \<or> transform [(250, 250, 250, 9), (1, 2, 3, 4)] ! 1 = (1, 2, 3, 4))
   \<and> (\<exists>r' g' b'. (r', g', b', 4) \<in> set ([(250, 250, 250, 9), (1, 2, 3, 4)] :: pixel list))
   \<and> (\<exists>a'. (1, 2, 3, a') \<in> set ([(250, 250, 250, 9), (1, 2, 3, 4)] :: pixel list))"
  using output_dichotomy [of 1 "[(250, 250, 250, 9), (1, 2, 3, 4)]" 1 2 3 4]
  by (simp add: transform_def appended_def near_white_def)




end
